theory Spec2Isabelle
  imports Main "HOL-Library.Word"
begin

section \<open>Buffers, text and hexadecimal\<close>

text \<open>
  A Node \<open>Buffer\<close> is modelled by its byte sequence, and a text by the byte sequence of its
  UTF-8 encoding: both are values of type \<open>string\<close>, whose characters are bytes. With this
  reading \<open>Buffer.from(s, 'utf8')\<close> and \<open>buf.toString('utf8')\<close> are the identity, and
  \<open>length\<close> is the UTF-8 byte length that \<open>resultBuf.length\<close> measures.
\<close>

type_synonym buffer = string

text \<open>
  \<open>Buffer.from(s, 'hex')\<close> reads two hexadecimal digits (of either case) per byte and stops
  at the first pair that is not hexadecimal; a trailing single character is dropped.
\<close>

definition hexval :: "char \<Rightarrow> nat option" where
  "hexval c =
     (let n = (of_char c :: nat) in
      if 48 \<le> n \<and> n \<le> 57 then Some (n - 48)
      else if 97 \<le> n \<and> n \<le> 102 then Some (n - 87)
      else if 65 \<le> n \<and> n \<le> 70 then Some (n - 55)
      else None)"

fun Buffer_from_hex :: "string \<Rightarrow> buffer" where
  "Buffer_from_hex (a # b # rest) =
     (case (hexval a, hexval b) of
        (Some x, Some y) \<Rightarrow> char_of (16 * x + y) # Buffer_from_hex rest
      | _ \<Rightarrow> [])"
| "Buffer_from_hex _ = []"

text \<open>\<open>buf.toString('hex')\<close> writes two lower-case digits per byte.\<close>

definition hexdigit :: "nat \<Rightarrow> char" where
  "hexdigit d = (if d < 10 then char_of (48 + d) else char_of (87 + d))"

definition Buffer_toString_hex :: "buffer \<Rightarrow> string" where
  "Buffer_toString_hex b =
     concat (map (\<lambda>c. [hexdigit ((of_char c :: nat) div 16), hexdigit ((of_char c :: nat) mod 16)]) b)"

definition is_lower_hex :: "char \<Rightarrow> bool" where
  "is_lower_hex c \<longleftrightarrow> c \<in> set ''0123456789abcdef''"

section \<open>SHA-256\<close>

text \<open>
  \<open>crypto.createHash('sha256').update(buf).digest('hex')\<close> is the SHA-256 of FIPS 180-4
  over the bytes of the buffer, written in lower-case hexadecimal.
\<close>

type_synonym u32 = "32 word"

definition rotr :: "nat \<Rightarrow> u32 \<Rightarrow> u32" where
  "rotr n x = or (drop_bit n x) (push_bit (32 - n) x)"

definition Ch :: "u32 \<Rightarrow> u32 \<Rightarrow> u32 \<Rightarrow> u32" where
  "Ch x y z = xor (and x y) (and (not x) z)"

definition Maj :: "u32 \<Rightarrow> u32 \<Rightarrow> u32 \<Rightarrow> u32" where
  "Maj x y z = xor (xor (and x y) (and x z)) (and y z)"

definition Sigma0 :: "u32 \<Rightarrow> u32" where
  "Sigma0 x = xor (xor (rotr 2 x) (rotr 13 x)) (rotr 22 x)"

definition Sigma1 :: "u32 \<Rightarrow> u32" where
  "Sigma1 x = xor (xor (rotr 6 x) (rotr 11 x)) (rotr 25 x)"

definition sigma0 :: "u32 \<Rightarrow> u32" where
  "sigma0 x = xor (xor (rotr 7 x) (rotr 18 x)) (drop_bit 3 x)"

definition sigma1 :: "u32 \<Rightarrow> u32" where
  "sigma1 x = xor (xor (rotr 17 x) (rotr 19 x)) (drop_bit 10 x)"

text \<open>
  The round constants (the first 32 bits of the fractional parts of the cube roots of the
  first 64 primes) and the initial hash value (of the square roots of the first 8), in
  decimal.
\<close>

definition sha256_K :: "u32 list" where
  "sha256_K =
    [1116352408, 1899447441, 3049323471, 3921009573, 961987163, 1508970993, 2453635748, 2870763221,
     3624381080, 310598401, 607225278, 1426881987, 1925078388, 2162078206, 2614888103, 3248222580,
     3835390401, 4022224774, 264347078, 604807628, 770255983, 1249150122, 1555081692, 1996064986,
     2554220882, 2821834349, 2952996808, 3210313671, 3336571891, 3584528711, 113926993, 338241895,
     666307205, 773529912, 1294757372, 1396182291, 1695183700, 1986661051, 2177026350, 2456956037,
     2730485921, 2820302411, 3259730800, 3345764771, 3516065817, 3600352804, 4094571909, 275423344,
     430227734, 506948616, 659060556, 883997877, 958139571, 1322822218, 1537002063, 1747873779,
     1955562222, 2024104815, 2227730452, 2361852424, 2428436474, 2756734187, 3204031479, 3329325298]"

type_synonym sha_regs = "u32 \<times> u32 \<times> u32 \<times> u32 \<times> u32 \<times> u32 \<times> u32 \<times> u32"

definition sha256_H0 :: sha_regs where
  "sha256_H0 =
    (1779033703, 3144134277, 1013904242, 2773480762, 1359893119, 2600822924, 528734635, 1541459225)"

text \<open>Padding: the byte \<open>0x80\<close>, zero bytes up to 56 modulo 64, the bit length in 8 bytes.\<close>

definition be_bytes :: "nat \<Rightarrow> nat \<Rightarrow> buffer" where
  "be_bytes k n = map (\<lambda>i. char_of (n div 256 ^ (k - 1 - i))) [0..<k]"

definition sha256_pad :: "buffer \<Rightarrow> buffer" where
  "sha256_pad m =
     m @ [char_of (128 :: nat)]
       @ replicate ((119 - length m mod 64) mod 64) (char_of (0 :: nat))
       @ be_bytes 8 (8 * length m)"

fun be_words :: "buffer \<Rightarrow> u32 list" where
  "be_words (a # b # c # d # rest) =
     (((of_char a * 256 + of_char b) * 256 + of_char c) * 256 + of_char d)
       # be_words rest"
| "be_words _ = []"

fun schedule :: "nat \<Rightarrow> u32 list \<Rightarrow> u32 list" where
  "schedule 0 w = w"
| "schedule (Suc n) w =
     (let t = length w in
      schedule n (w @ [sigma1 (w ! (t - 2)) + w ! (t - 7) + sigma0 (w ! (t - 15)) + w ! (t - 16)]))"

definition sha256_round :: "u32 \<times> u32 \<Rightarrow> sha_regs \<Rightarrow> sha_regs" where
  "sha256_round kw r =
     (case r of (a, b, c, d, e, f, g, h) \<Rightarrow>
        let t1 = h + Sigma1 e + Ch e f g + fst kw + snd kw;
            t2 = Sigma0 a + Maj a b c
        in (t1 + t2, a, b, c, d + t1, e, f, g))"

definition sha256_block :: "sha_regs \<Rightarrow> u32 list \<Rightarrow> sha_regs" where
  "sha256_block r ws =
     (case (r, fold sha256_round (zip sha256_K (schedule 48 ws)) r) of
        ((a, b, c, d, e, f, g, h), (a', b', c', d', e', f', g', h')) \<Rightarrow>
          (a + a', b + b', c + c', d + d', e + e', f + f', g + g', h + h'))"

fun sha256_blocks :: "nat \<Rightarrow> sha_regs \<Rightarrow> u32 list \<Rightarrow> sha_regs" where
  "sha256_blocks 0 r ws = r"
| "sha256_blocks (Suc n) r ws = sha256_blocks n (sha256_block r (take 16 ws)) (drop 16 ws)"

definition word_bytes :: "u32 \<Rightarrow> buffer" where
  "word_bytes w = map (\<lambda>i. char_of (unat (and (drop_bit (8 * (3 - i)) w) 255))) [0..<4]"

definition sha256 :: "buffer \<Rightarrow> buffer" where
  "sha256 m =
     (let ws = be_words (sha256_pad m) in
      case sha256_blocks (length ws div 16) sha256_H0 ws of
        (a, b, c, d, e, f, g, h) \<Rightarrow> concat (map word_bytes [a, b, c, d, e, f, g, h]))"

definition sha256_hex :: "buffer \<Rightarrow> string" where
  "sha256_hex m = Buffer_toString_hex (sha256 m)"

section \<open>The script library\<close>

text \<open>
  The transaction library (\<open>scrypt-ts\<close>'s \<open>bsv\<close>) is not part of the repository. What the
  agent uses of it is the script format of the ledger: a script is a list of chunks, a chunk
  is an opcode, and a push chunk carries a buffer; \<open>add\<close> of a buffer picks the push opcode
  from the length, the script is written byte by byte, and \<open>Script.fromHex\<close> reads those
  bytes back. Signing is left out: it changes the unlocking scripts of the inputs only.
\<close>

datatype chunk = Chunk (opcodenum: nat) (buf: "buffer option")

type_synonym script = "chunk list"

definition OP_FALSE :: nat where "OP_FALSE = 0"
definition OP_PUSHDATA1 :: nat where "OP_PUSHDATA1 = 76"
definition OP_PUSHDATA2 :: nat where "OP_PUSHDATA2 = 77"
definition OP_PUSHDATA4 :: nat where "OP_PUSHDATA4 = 78"
definition OP_RETURN :: nat where "OP_RETURN = 106"

definition Script_add_opcode :: "script \<Rightarrow> nat \<Rightarrow> script" where
  "Script_add_opcode s opc = s @ [Chunk opc None]"

text \<open>
  Pushing 2^32 bytes or more makes the library throw; a buffer taken from a JavaScript
  string is shorter than that, so that branch is not reachable and is not modelled.
\<close>

definition push_opcode :: "nat \<Rightarrow> nat" where
  "push_opcode len =
     (if len < OP_PUSHDATA1 then len
      else if len < 2 ^ 8 then OP_PUSHDATA1
      else if len < 2 ^ 16 then OP_PUSHDATA2
      else OP_PUSHDATA4)"

definition Script_add_buffer :: "script \<Rightarrow> buffer \<Rightarrow> script" where
  "Script_add_buffer s b = s @ [Chunk (push_opcode (length b)) (Some b)]"


definition le_nat :: "buffer \<Rightarrow> nat" where
  "le_nat b = foldr (\<lambda>c acc. of_char c + 256 * acc) b 0"




text \<open>
  Reading a script. \<open>chunk_at opc rest\<close> is the chunk that starts with opcode \<open>opc\<close> when
  \<open>rest\<close> follows it, with the number of bytes of \<open>rest\<close> it takes; it is \<open>None\<close> where the
  reader throws (\<open>RangeError\<close>, rethrown as an invalid-buffer error) because the length field
  of a push is cut short. A push whose data is cut short is read with the bytes there are.
\<close>

definition push_chunk :: "nat \<Rightarrow> nat \<Rightarrow> buffer \<Rightarrow> (chunk \<times> nat) option" where
  "push_chunk opc k rest =
     (if length rest < k then None
      else let len = le_nat (take k rest)
           in Some (Chunk opc (Some (take len (drop k rest))), k + len))"

definition chunk_at :: "nat \<Rightarrow> buffer \<Rightarrow> (chunk \<times> nat) option" where
  "chunk_at opc rest =
     (if 0 < opc \<and> opc < OP_PUSHDATA1 then Some (Chunk opc (Some (take opc rest)), opc)
      else if opc = OP_PUSHDATA1 then push_chunk opc 1 rest
      else if opc = OP_PUSHDATA2 then push_chunk opc 2 rest
      else if opc = OP_PUSHDATA4 then push_chunk opc 4 rest
      else Some (Chunk opc None, 0))"

function Script_fromBuffer :: "buffer \<Rightarrow> string + script" where
  "Script_fromBuffer [] = Inr []"
| "Script_fromBuffer (c # rest) =
     (case chunk_at (of_char c) rest of
        None \<Rightarrow> Inl ''Invalid script buffer''
      | Some (ch, k) \<Rightarrow>
          (case Script_fromBuffer (drop k rest) of
             Inl e \<Rightarrow> Inl e
           | Inr chunks \<Rightarrow> Inr (ch # chunks)))"
  by pat_completeness auto
termination
  by (relation "measure length") auto

definition Script_fromHex :: "string \<Rightarrow> string + script" where
  "Script_fromHex h = Script_fromBuffer (Buffer_from_hex h)"



text \<open>The buffers of the push chunks, in order: the loop \<open>if (chunk.buf) pushes.push(chunk.buf)\<close>.\<close>

definition pushes_of :: "script \<Rightarrow> buffer list" where
  "pushes_of chunks = List.map_filter buf chunks"

section \<open>The Settlement Builder\<close>

text \<open>
  A spendable output as \<open>findOurOutputs\<close> builds it. Amounts on the ledger are natural
  numbers of satoshis.
\<close>

record utxo =
  u_txid :: string
  u_vout :: nat
  u_satoshis :: nat
  u_script :: string

datatype private_key = PrivateKey (toAddress: string)

datatype out_script = DataScript script | PublicKeyHashOut string

record tx_output =
  o_script :: out_script
  o_satoshis :: int

record transaction =
  inputs :: "utxo list"
  outputs :: "tx_output list"

definition addInput :: "transaction \<Rightarrow> utxo \<Rightarrow> transaction" where
  "addInput tx u = tx\<lparr>inputs := inputs tx @ [u]\<rparr>"

definition addOutput :: "transaction \<Rightarrow> tx_output \<Rightarrow> transaction" where
  "addOutput tx out = tx\<lparr>outputs := outputs tx @ [out]\<rparr>"

definition FEE :: int where "FEE = 300"

record built =
  b_tx :: transaction
  b_isHashed :: bool
  b_keep :: int

definition res_script :: "string \<Rightarrow> buffer \<Rightarrow> script" where
  "res_script jobTxid resultBuf =
     Script_add_buffer
       (Script_add_buffer
          (Script_add_buffer
             (Script_add_opcode (Script_add_opcode [] OP_FALSE) OP_RETURN)
             ''RES'')
          (rev (Buffer_from_hex jobTxid)))
       resultBuf"

text \<open>
  The size policy at the head of \<open>buildResponseTx\<close>: the buffer that is pushed as the result,
  and the flag \<open>isHashed\<close>.
\<close>

definition size_policy :: "string \<Rightarrow> buffer \<times> bool" where
  "size_policy resultText =
     (if 50000 < length resultText then (''HASH:'' @ sha256_hex resultText, True)
      else (resultText, False))"

definition buildResponseTx :: "private_key \<Rightarrow> utxo list \<Rightarrow> string \<Rightarrow> string \<Rightarrow> built" where
  "buildResponseTx privKey utxos jobTxid resultText =
     (let address = toAddress privKey;
          (resultBuf, isHashed) = size_policy resultText;
          opReturn = res_script jobTxid resultBuf;
          (tx1, totalIn) =
            fold (\<lambda>u (tx, total). (addInput tx u, total + u_satoshis u)) utxos
              (\<lparr>inputs = [], outputs = []\<rparr>, 0);
          tx2 = addOutput tx1 \<lparr>o_script = DataScript opReturn, o_satoshis = 0\<rparr>;
          keep = int totalIn - FEE;
          tx3 = (if 0 < keep
                 then addOutput tx2 \<lparr>o_script = PublicKeyHashOut address, o_satoshis = keep\<rparr>
                 else tx2)
      in \<lparr>b_tx = tx3, b_isHashed = isHashed, b_keep = keep\<rparr>)"

section \<open>Exceptions\<close>

text \<open>
  A computation that may throw returns a value of type \<open>'a js\<close>: \<open>Inl msg\<close> is an \<open>Error\<close>
  thrown (or a promise rejected) with message \<open>msg\<close>, \<open>Inr v\<close> is the value returned.
\<close>

type_synonym 'a js = "string + 'a"

definition try_catch :: "'a js \<Rightarrow> (string \<Rightarrow> 'a js) \<Rightarrow> 'a js" where
  "try_catch body handler = (case body of Inl err \<Rightarrow> handler err | Inr v \<Rightarrow> Inr v)"

section \<open>Transactions as the ledger reports them\<close>

text \<open>
  The JSON of a transaction. \<open>vout_sats\<close> is the amount of the output in satoshis, the
  number \<open>Math.round(vout.value * 1e8)\<close>; a missing \<open>scriptPubKey\<close> or \<open>addresses\<close> is \<open>None\<close>,
  and \<open>tx.vout || []\<close> is the list \<open>tx_vout\<close>.
\<close>

record scriptPubKey =
  spk_type :: string
  spk_hex :: string
  spk_addresses :: "string list option"

record vout =
  vout_sats :: nat
  vout_n :: nat
  vout_scriptPubKey :: "scriptPubKey option"

record ledger_tx =
  tx_txid :: string
  tx_vout :: "vout list"

subsection \<open>parseJobFromTx\<close>

text \<open>
  The body of the \<open>try\<close> block for one output. The script parser is the library's
  \<open>Script.fromHex\<close>; it is a parameter, so that what is proved about the decoder holds
  whatever the parser does with the bytes, throwing included.
\<close>

definition job_of_script :: "(string \<Rightarrow> script js) \<Rightarrow> scriptPubKey \<Rightarrow> string option js" where
  "job_of_script fromHex spk =
     (case fromHex (spk_hex spk) of
        Inl err \<Rightarrow> Inl err
      | Inr chunks \<Rightarrow>
          (let pushes = pushes_of chunks in
           if 2 \<le> length pushes \<and> pushes ! 0 = ''JOB'' then Inr (Some (pushes ! 1))
           else Inr None))"

fun parseJobFromTx_loop :: "(string \<Rightarrow> script js) \<Rightarrow> vout list \<Rightarrow> string option js" where
  "parseJobFromTx_loop fromHex [] = Inr None"
| "parseJobFromTx_loop fromHex (v # vs) =
     (case vout_scriptPubKey v of
        None \<Rightarrow> parseJobFromTx_loop fromHex vs
      | Some spk \<Rightarrow>
          if spk_type spk \<noteq> ''nulldata'' then parseJobFromTx_loop fromHex vs
          else (case try_catch (job_of_script fromHex spk) (\<lambda>err. Inr None) of
                  Inl err \<Rightarrow> Inl err
                | Inr (Some prompt) \<Rightarrow> Inr (Some prompt)
                | Inr None \<Rightarrow> parseJobFromTx_loop fromHex vs))"

definition parseJobFromTx :: "(string \<Rightarrow> script js) \<Rightarrow> ledger_tx \<Rightarrow> string option js" where
  "parseJobFromTx fromHex tx = parseJobFromTx_loop fromHex (tx_vout tx)"

subsection \<open>findOurOutputs\<close>

definition pays :: "string \<Rightarrow> vout \<Rightarrow> bool" where
  "pays address v =
     (case vout_scriptPubKey v of
        None \<Rightarrow> False
      | Some spk \<Rightarrow> (case spk_addresses spk of None \<Rightarrow> False | Some as \<Rightarrow> address \<in> set as))"

definition findOurOutputs :: "ledger_tx \<Rightarrow> string \<Rightarrow> utxo list" where
  "findOurOutputs tx address =
     map (\<lambda>v. \<lparr>u_txid = tx_txid tx, u_vout = vout_n v, u_satoshis = vout_sats v,
               u_script = spk_hex (the (vout_scriptPubKey v))\<rparr>)
       (filter (pays address) (tx_vout tx))"

section \<open>The inference call\<close>

text \<open>
  \<open>answer.replace(/<think>[\s\S]*?<\/think>/g, '')\<close>: from left to right, every
  \<open><think>\<close> that has a \<open></think>\<close> after it is removed up to the first such close tag.
  \<open>strip_think k s\<close> first drops \<open>k\<close> characters, the rest of a match already found.
\<close>

fun find_sub :: "string \<Rightarrow> string \<Rightarrow> nat option" where
  "find_sub p [] = (if p = [] then Some 0 else None)"
| "find_sub p (c # cs) =
     (if take (length p) (c # cs) = p then Some 0 else map_option Suc (find_sub p cs))"

definition think_match :: "string \<Rightarrow> nat option" where
  "think_match s =
     (if take 7 s = ''<think>''
      then map_option (\<lambda>i. 7 + i + 8) (find_sub ''</think>'' (drop 7 s))
      else None)"

fun strip_think :: "nat \<Rightarrow> string \<Rightarrow> string" where
  "strip_think k [] = []"
| "strip_think (Suc k) (c # cs) = strip_think k cs"
| "strip_think 0 (c # cs) =
     (case think_match (c # cs) of
        Some n \<Rightarrow> strip_think (n - 1) cs
      | None \<Rightarrow> c # strip_think 0 cs)"

text \<open>
  \<open>trim\<close> removes white space at both ends. The white space of ASCII is modelled (tab, line
  feed, vertical tab, form feed, carriage return, space); the white space beyond ASCII
  that JavaScript also trims is left in place.
\<close>

definition is_space :: "char \<Rightarrow> bool" where
  "is_space c \<longleftrightarrow> (of_char c :: nat) \<in> {9, 10, 11, 12, 13, 32}"

definition trim :: "string \<Rightarrow> string" where
  "trim s = rev (dropWhile is_space (rev (dropWhile is_space s)))"

text \<open>
  The reply of the inference server: the fields \<open>response\<close> and \<open>thinking\<close> of the JSON, the
  empty text when a field is missing.
\<close>

record llm_reply =
  r_response :: string
  r_thinking :: string

section \<open>The world outside the process\<close>

text \<open>
  What the ledger gateway, the inference server and the clock answer during one poll tick.
  \<open>w_history\<close> is the answer of \<open>httpGet\<close> on the address history: \<open>Inl\<close> when the request
  fails, \<open>Inr None\<close> when the answer is \<open>null\<close> or not an array, else the list of the
  \<open>tx_hash\<close> fields. \<open>w_getTx\<close> is \<open>httpGet\<close> on a transaction (\<open>Inr None\<close>: status 404 or a body
  that is not JSON). \<open>w_generate\<close> is \<open>httpPost\<close> on the inference server, \<open>Inl\<close> standing for
  every exception raised inside the \<open>try\<close> block of \<open>askLLM\<close>. \<open>w_broadcast\<close> is \<open>wocBroadcast\<close>.
\<close>

record world =
  w_history :: "string list option js"
  w_getTx :: "string \<Rightarrow> ledger_tx option js"
  w_generate :: "string \<Rightarrow> llm_reply js"
  w_broadcast :: "transaction \<Rightarrow> string js"
  w_now :: string

definition askLLM_body :: "world \<Rightarrow> string \<Rightarrow> string js" where
  "askLLM_body w prompt =
     (case w_generate w prompt of
        Inl err \<Rightarrow> Inl err
      | Inr resp \<Rightarrow>
          (let answer = r_response resp;
               answer = (if r_thinking resp \<noteq> [] \<and> answer = [] then r_thinking resp else answer);
               answer = trim (strip_think 0 answer)
           in Inr (if answer = [] then ''(no response)'' else answer)))"

definition askLLM :: "world \<Rightarrow> string \<Rightarrow> string js" where
  "askLLM w prompt = try_catch (askLLM_body w prompt) (\<lambda>err. Inr (''Error: '' @ err))"

section \<open>The Job Store and the Job Processor\<close>

record job =
  jobTxid :: string
  resTxid :: "string option"
  prompt :: string
  result :: string
  satsReceived :: int
  satsKept :: int
  isHashed :: "bool option"
  error :: "string option"
  timestamp :: string

datatype log_line =
    L_new_tx string
  | L_could_not_fetch
  | L_no_job
  | L_no_outputs
  | L_job string
  | L_received int
  | L_thinking
  | L_result string
  | L_broadcasting
  | L_response_tx string
  | L_kept int
  | L_hashed_warning
  | L_broadcast_failed string
  | L_poll_error string

text \<open>
  The state of the agent process and of what it writes: the set \<open>lastSeenTxids\<close>, the file
  \<open>jobs.json\<close>, the lines printed by \<open>log\<close>, and the transactions handed to \<open>wocBroadcast\<close>.
\<close>

record agent =
  lastSeenTxids :: "string set"
  jobs_json :: "job list"
  console :: "log_line list"
  sent :: "transaction list"

record wallet =
  wif :: string
  address :: string

definition log :: "log_line \<Rightarrow> agent \<Rightarrow> agent" where
  "log msg a = a\<lparr>console := console a @ [msg]\<rparr>"

definition saveJob :: "job \<Rightarrow> agent \<Rightarrow> agent" where
  "saveJob j a = a\<lparr>jobs_json := jobs_json a @ [j]\<rparr>"

definition isJobProcessed :: "agent \<Rightarrow> string \<Rightarrow> bool" where
  "isJobProcessed a txid \<longleftrightarrow> (\<exists>j \<in> set (jobs_json a). jobTxid j = txid)"

definition hashed_marker :: string where
  "hashed_marker = ''(hashed '' @ [CHR 0xE2, CHR 0x80, CHR 0x94] @ '' see follow-up tx)''"

text \<open>
  The two halves of the body of \<open>processJob\<close> after the response transaction is built: the
  \<open>try\<close> block once \<open>wocBroadcast\<close> has answered, and the \<open>catch\<close> block.
\<close>

definition record_settled ::
  "world \<Rightarrow> string \<Rightarrow> string \<Rightarrow> string \<Rightarrow> int \<Rightarrow> built \<Rightarrow> string \<Rightarrow> agent \<Rightarrow> agent" where
  "record_settled w txid prmpt res received b rtxid a =
     (let a = log (L_response_tx rtxid) a;
          a = log (L_kept (b_keep b)) a;
          a = saveJob \<lparr>jobTxid = txid, resTxid = Some rtxid, prompt = prmpt,
                       result = (if b_isHashed b then hashed_marker else res),
                       satsReceived = received, satsKept = b_keep b,
                       isHashed = Some (b_isHashed b), error = None,
                       timestamp = w_now w\<rparr> a
      in if b_isHashed b then log L_hashed_warning a else a)"

definition record_failed ::
  "world \<Rightarrow> string \<Rightarrow> string \<Rightarrow> string \<Rightarrow> int \<Rightarrow> string \<Rightarrow> agent \<Rightarrow> agent" where
  "record_failed w txid prmpt res received err a =
     (let a = log (L_broadcast_failed err) a
      in saveJob \<lparr>jobTxid = txid, resTxid = None, prompt = prmpt, result = res,
                   satsReceived = received, satsKept = 0,
                   isHashed = None, error = Some err,
                   timestamp = w_now w\<rparr> a)"

text \<open>
  \<open>processJob\<close> returns the state it leaves and how it ended: \<open>Inr ()\<close> when it returns,
  \<open>Inl msg\<close> when an exception leaves it (the caller catches it).
\<close>

definition processJob ::
  "world \<Rightarrow> wallet \<Rightarrow> private_key \<Rightarrow> string \<Rightarrow> agent \<Rightarrow> unit js \<times> agent" where
  "processJob w wlt privKey txid a0 =
     (let a = log (L_new_tx txid) a0 in
      case w_getTx w txid of
        Inl err \<Rightarrow> (Inl err, a)
      | Inr None \<Rightarrow> (Inr (), log L_could_not_fetch a)
      | Inr (Some tx) \<Rightarrow>
          (case parseJobFromTx Script_fromHex tx of
             Inl err \<Rightarrow> (Inl err, a)
           | Inr None \<Rightarrow> (Inr (), log L_no_job a)
           | Inr (Some prmpt) \<Rightarrow>
               if prmpt = [] then (Inr (), log L_no_job a)
               else
                 (let utxos = findOurOutputs tx (address wlt) in
                  if utxos = [] then (Inr (), log L_no_outputs a)
                  else
                    (let received = fold (\<lambda>u s. s + int (u_satoshis u)) utxos 0;
                         a = log (L_job prmpt) a;
                         a = log (L_received received) a;
                         a = log L_thinking a
                     in case askLLM w prmpt of
                          Inl err \<Rightarrow> (Inl err, a)
                        | Inr res \<Rightarrow>
                            (let a = log (L_result res) a;
                                 b = buildResponseTx privKey utxos txid res;
                                 a = log L_broadcasting a;
                                 a = a\<lparr>sent := sent a @ [b_tx b]\<rparr>
                             in case w_broadcast w (b_tx b) of
                                  Inr rtxid \<Rightarrow>
                                    (Inr (), record_settled w txid prmpt res received b rtxid a)
                                | Inl err \<Rightarrow>
                                    (Inr (), record_failed w txid prmpt res received err a))))))"

section \<open>The Poller\<close>

text \<open>
  The loop of \<open>pollForJobs\<close> over the entries of the history. An exception that leaves
  \<open>processJob\<close> ends the loop: the \<open>catch\<close> of \<open>pollForJobs\<close> logs it. The two-second wait
  before \<open>processJob\<close> has no effect on the state.
\<close>

fun poll_loop :: "world \<Rightarrow> wallet \<Rightarrow> private_key \<Rightarrow> string list \<Rightarrow> agent \<Rightarrow> agent" where
  "poll_loop w wlt privKey [] a = a"
| "poll_loop w wlt privKey (txid # rest) a =
     (if txid \<in> lastSeenTxids a then poll_loop w wlt privKey rest a
      else
        (let a = a\<lparr>lastSeenTxids := insert txid (lastSeenTxids a)\<rparr> in
         if isJobProcessed a txid then poll_loop w wlt privKey rest a
         else (case processJob w wlt privKey txid a of
                 (Inr u, a') \<Rightarrow> poll_loop w wlt privKey rest a'
               | (Inl err, a') \<Rightarrow> log (L_poll_error err) a')))"

definition pollForJobs :: "world \<Rightarrow> wallet \<Rightarrow> private_key \<Rightarrow> agent \<Rightarrow> agent" where
  "pollForJobs w wlt privKey a =
     (case w_history w of
        Inl err \<Rightarrow> log (L_poll_error err) a
      | Inr None \<Rightarrow> a
      | Inr (Some history) \<Rightarrow> poll_loop w wlt privKey history a)"

text \<open>
  \<open>main\<close>: the process starts with an empty seen-set, reads the history once (an exception
  is swallowed) and the Job Store, and adds both to the seen-set. The argument \<open>stored\<close> is
  the content of \<open>jobs.json\<close> when the process starts.
\<close>

definition main :: "world \<Rightarrow> job list \<Rightarrow> agent" where
  "main w stored =
     (let seen = (case w_history w of Inr (Some history) \<Rightarrow> set history | _ \<Rightarrow> {});
          seen = seen \<union> set (map jobTxid stored)
      in \<lparr>lastSeenTxids = seen, jobs_json = stored, console = [], sent = []\<rparr>)"

text \<open>The timer: one \<open>pollForJobs\<close> per tick, each tick with the answers of its moment.\<close>

fun ticks :: "world list \<Rightarrow> wallet \<Rightarrow> private_key \<Rightarrow> agent \<Rightarrow> agent" where
  "ticks [] wlt privKey a = a"
| "ticks (w # ws) wlt privKey a = ticks ws wlt privKey (pollForJobs w wlt privKey a)"

text \<open>
  How often \<open>processJob\<close> was started for an id (its first line of log), and how many
  entries of the Job Store have the id as key.
\<close>

definition calls :: "string \<Rightarrow> agent \<Rightarrow> nat" where
  "calls txid a = length (filter (\<lambda>l. l = L_new_tx txid) (console a))"

definition entries :: "string \<Rightarrow> agent \<Rightarrow> job list" where
  "entries txid a = filter (\<lambda>j. jobTxid j = txid) (jobs_json a)"

text \<open>
  An id is guarded when the poll loop will skip it. It was handled at most once when
  \<open>processJob\<close> started at most once for it, the Job Store has at most one entry for it,
  and it is guarded if \<open>processJob\<close> did start.
\<close>

definition guarded :: "string \<Rightarrow> agent \<Rightarrow> bool" where
  "guarded txid a \<longleftrightarrow> txid \<in> lastSeenTxids a \<or> isJobProcessed a txid"


section \<open>The Bridge Correlator\<close>





definition data_script :: "tx_output \<Rightarrow> script" where
  "data_script out = (case o_script out of DataScript s \<Rightarrow> s | PublicKeyHashOut a \<Rightarrow> [])"

definition is_data :: "tx_output \<Rightarrow> bool" where
  "is_data out = (case o_script out of DataScript s \<Rightarrow> True | PublicKeyHashOut a \<Rightarrow> False)"

section \<open>The chat handler of the web front-end\<close>

text \<open>
  The conversation file of one requester is a list of entries; \<open>c_pending\<close> is \<open>False\<close> where
  the field \<open>pending\<close> is missing.
\<close>

record conv_entry =
  c_prompt :: string
  c_result :: "string option"
  c_txid :: "string option"
  c_timestamp :: string
  c_pending :: bool








definition pending_count :: "conv_entry list \<Rightarrow> nat" where
  "pending_count h = length (filter c_pending h)"


section \<open>Sample data\<close>

text \<open>
  A request transaction with the output \<open>OP_FALSE OP_RETURN 'JOB' 'hi'\<close> and one payment to
  the agent, and worlds around it: one where everything answers, one where the transaction
  is not found, one where the ledger does not answer, one where the inference server is down, one where the broadcast is refused,
  one where the answer is long.
\<close>

definition ex_id :: string where
  "ex_id = ''abababababababababababababababababababababababababababababababab''"


definition ex_wallet :: wallet where
  "ex_wallet = \<lparr>wif = ''key'', address = ''agent''\<rparr>"

definition ex_key :: private_key where
  "ex_key = PrivateKey ''agent''"

definition ex_utxo :: "nat \<Rightarrow> utxo" where
  "ex_utxo sats = \<lparr>u_txid = ex_id, u_vout = 1, u_satoshis = sats, u_script = ''76a988ac''\<rparr>"

definition ex_job_tx :: "nat \<Rightarrow> ledger_tx" where
  "ex_job_tx sats =
     \<lparr>tx_txid = ex_id,
      tx_vout =
        [\<lparr>vout_sats = 0, vout_n = 0,
          vout_scriptPubKey = Some \<lparr>spk_type = ''nulldata'', spk_hex = ''006a034a4f42026869'',
                                    spk_addresses = None\<rparr>\<rparr>,
         \<lparr>vout_sats = sats, vout_n = 1,
          vout_scriptPubKey = Some \<lparr>spk_type = ''pubkeyhash'', spk_hex = ''76a988ac'',
                                    spk_addresses = Some [''agent'']\<rparr>\<rparr>]\<rparr>"

definition ex_bad_vout :: vout where
  "ex_bad_vout =
     \<lparr>vout_sats = 0, vout_n = 2,
      vout_scriptPubKey = Some \<lparr>spk_type = ''nulldata'', spk_hex = ''4c'',
                                spk_addresses = None\<rparr>\<rparr>"

definition ex_world :: "nat \<Rightarrow> world" where
  "ex_world sats =
     \<lparr>w_history = Inr (Some [ex_id]),
      w_getTx = (\<lambda>t. if t = ex_id then Inr (Some (ex_job_tx sats)) else Inr None),
      w_generate = (\<lambda>p. Inr \<lparr>r_response = ''4'', r_thinking = []\<rparr>),
      w_broadcast = (\<lambda>tx. Inr ''resp''),
      w_now = ''now''\<rparr>"


definition ex_world_offline :: world where
  "ex_world_offline = (ex_world 3000)\<lparr>w_history := Inl ''getaddrinfo ENOTFOUND''\<rparr>"

definition ex_world_llm_down :: world where
  "ex_world_llm_down = (ex_world 3000)\<lparr>w_generate := (\<lambda>p. Inl ''connect ECONNREFUSED'')\<rparr>"

definition ex_world_refused :: world where
  "ex_world_refused = (ex_world 3000)\<lparr>w_broadcast := (\<lambda>tx. Inl ''Broadcast: rejected'')\<rparr>"

definition ex_long_answer :: string where
  "ex_long_answer = replicate 50001 CHR ''a''"

definition ex_world_long :: world where
  "ex_world_long =
     (ex_world 3000)\<lparr>w_generate := (\<lambda>p. Inr \<lparr>r_response = ex_long_answer, r_thinking = []\<rparr>)\<rparr>"

definition ex_agent :: agent where
  "ex_agent = \<lparr>lastSeenTxids = {}, jobs_json = [], console = [], sent = []\<rparr>"





section \<open>Fee conservation of the Settlement Builder\<close>

lemma fold_inputs:
  "fold (\<lambda>u (tx, total). (addInput tx u, total + u_satoshis u)) utxos (tx0, t0)
     = (tx0\<lparr>inputs := inputs tx0 @ utxos\<rparr>, t0 + sum_list (map u_satoshis utxos))"
  by (induction utxos arbitrary: tx0 t0) (auto simp: addInput_def)

lemma buildResponseTx_unfold:
  "buildResponseTx privKey utxos t r =
     \<lparr>b_tx = \<lparr>inputs = utxos,
               outputs = \<lparr>o_script = DataScript (res_script t (fst (size_policy r))), o_satoshis = 0\<rparr>
                 # (if 0 < int (sum_list (map u_satoshis utxos)) - FEE
                    then [\<lparr>o_script = PublicKeyHashOut (toAddress privKey),
                           o_satoshis = int (sum_list (map u_satoshis utxos)) - FEE\<rparr>]
                    else [])\<rparr>,
      b_isHashed = snd (size_policy r),
      b_keep = int (sum_list (map u_satoshis utxos)) - FEE\<rparr>"
  by (simp add: buildResponseTx_def fold_inputs addOutput_def Let_def split: prod.split)

text \<open>
  C1. With \<open>totalIn\<close> the sum of the amounts of the inputs: the outputs that carry no data
  are exactly one change output of \<open>totalIn - FEE\<close> when that is positive, and none
  otherwise; when there is a change output, the amounts of the outputs and the fee add up to
  \<open>totalIn\<close>; in every case the amounts of the outputs sum to at most \<open>totalIn\<close>, no amount is
  negative, and the one output that carries data is the first.
\<close>

theorem buildResponseTx_fee_conservation:
  "let totalIn = int (sum_list (map u_satoshis utxos));
       outs = outputs (b_tx (buildResponseTx privKey utxos t resultText));
       change = filter (\<lambda>out. \<not> is_data out) outs
   in (0 < totalIn - FEE \<longrightarrow>
         change = [\<lparr>o_script = PublicKeyHashOut (toAddress privKey), o_satoshis = totalIn - FEE\<rparr>])
    \<and> (\<not> 0 < totalIn - FEE \<longrightarrow> change = [])
    \<and> (change \<noteq> [] \<longrightarrow> sum_list (map o_satoshis outs) + FEE = totalIn)
    \<and> sum_list (map o_satoshis outs) \<le> totalIn
    \<and> (\<forall>out \<in> set outs. 0 \<le> o_satoshis out)
    \<and> outs \<noteq> [] \<and> is_data (outs ! 0) \<and> length (filter is_data outs) = 1"
  by (simp add: buildResponseTx_unfold Let_def is_data_def FEE_def)

theorem buildResponseTx_fee_conservation_witness:
  "0 < int (sum_list (map u_satoshis [ex_utxo 1000])) - FEE
   \<and> map o_satoshis (outputs (b_tx (buildResponseTx ex_key [ex_utxo 1000] ex_id ''4''))) = [0, 700]
   \<and> \<not> 0 < int (sum_list (map u_satoshis [ex_utxo 100])) - FEE
   \<and> filter (\<lambda>out. \<not> is_data out)
        (outputs (b_tx (buildResponseTx ex_key [ex_utxo 100] ex_id ''4''))) = []"
  using buildResponseTx_fee_conservation [of "[ex_utxo 1000]" ex_key ex_id "''4''"]
        buildResponseTx_fee_conservation [of "[ex_utxo 100]" ex_key ex_id "''4''"]
  by (simp add: Let_def ex_utxo_def FEE_def is_data_def buildResponseTx_unfold)

section \<open>The decoder of job requests\<close>

lemma parseJobFromTx_loop_returns: "\<exists>r. parseJobFromTx_loop fromHex vs = Inr r"
  by (induction vs) (auto simp: try_catch_def split: option.splits sum.splits)

lemma parseJobFromTx_loop_found:
  "parseJobFromTx_loop fromHex vs = Inr (Some p) \<Longrightarrow>
     \<exists>v \<in> set vs. \<exists>spk chunks. vout_scriptPubKey v = Some spk \<and> spk_type spk = ''nulldata''
        \<and> fromHex (spk_hex spk) = Inr chunks \<and> 2 \<le> length (pushes_of chunks)
        \<and> pushes_of chunks ! 0 = ''JOB'' \<and> pushes_of chunks ! 1 = p"
proof (induction vs)
  case Nil
  then show ?case by simp
next
  case (Cons v vs)
  show ?case
  proof (cases "vout_scriptPubKey v")
    case None
    with Cons show ?thesis by simp
  next
    case (Some spk)
    show ?thesis
    proof (cases "spk_type spk = ''nulldata''")
      case False
      with Some Cons show ?thesis by simp
    next
      case True
      show ?thesis
      proof (cases "job_of_script fromHex spk")
        case (Inl err)
        with Some True Cons show ?thesis by (simp add: try_catch_def)
      next
        case (Inr r)
        show ?thesis
        proof (cases r)
          case None
          with Inr Some True Cons show ?thesis by (simp add: try_catch_def)
        next
          case (Some q)
          with Inr \<open>vout_scriptPubKey v = Some spk\<close> True Cons.prems have "q = p"
            by (simp add: try_catch_def)
          with Some Inr have "job_of_script fromHex spk = Inr (Some p)" by simp
          then obtain chunks where "fromHex (spk_hex spk) = Inr chunks"
            "2 \<le> length (pushes_of chunks)" "pushes_of chunks ! 0 = ''JOB''"
            "pushes_of chunks ! 1 = p"
            by (auto simp: job_of_script_def Let_def split: sum.splits if_splits)
          with \<open>vout_scriptPubKey v = Some spk\<close> True show ?thesis by auto
        qed
      qed
    qed
  qed
qed

text \<open>
  C10. For every transaction and whatever the script parser does, \<open>parseJobFromTx\<close> returns
  (a prompt or \<open>null\<close>) and never throws. An output without a script, an output whose type
  is not \<open>nulldata\<close>, an output on which the parser throws and an output whose first push
  is not \<open>JOB\<close> (or that has fewer than two pushes) are skipped: with such an output put
  in front the result is the same. A prompt that is returned is the second push of a
  \<open>nulldata\<close> output of the transaction whose first push is \<open>JOB\<close>.
\<close>

theorem parseJobFromTx_total:
  "(\<exists>r. parseJobFromTx fromHex tx = Inr r)
   \<and> ((vout_scriptPubKey v = None
        \<or> (\<exists>spk. vout_scriptPubKey v = Some spk \<and> spk_type spk \<noteq> ''nulldata'')
        \<or> (\<exists>spk err. vout_scriptPubKey v = Some spk \<and> fromHex (spk_hex spk) = Inl err)
        \<or> (\<exists>spk chunks. vout_scriptPubKey v = Some spk \<and> fromHex (spk_hex spk) = Inr chunks
              \<and> \<not> (2 \<le> length (pushes_of chunks) \<and> pushes_of chunks ! 0 = ''JOB'')))
       \<longrightarrow> parseJobFromTx fromHex (tx\<lparr>tx_vout := v # tx_vout tx\<rparr>) = parseJobFromTx fromHex tx)
   \<and> (parseJobFromTx fromHex tx = Inr (Some p) \<longrightarrow>
        (\<exists>v \<in> set (tx_vout tx). \<exists>spk chunks.
            vout_scriptPubKey v = Some spk \<and> spk_type spk = ''nulldata''
          \<and> fromHex (spk_hex spk) = Inr chunks \<and> 2 \<le> length (pushes_of chunks)
          \<and> pushes_of chunks ! 0 = ''JOB'' \<and> pushes_of chunks ! 1 = p))"
proof (intro conjI impI)
  show "\<exists>r. parseJobFromTx fromHex tx = Inr r"
    by (simp add: parseJobFromTx_def parseJobFromTx_loop_returns)
next
  assume "vout_scriptPubKey v = None
        \<or> (\<exists>spk. vout_scriptPubKey v = Some spk \<and> spk_type spk \<noteq> ''nulldata'')
        \<or> (\<exists>spk err. vout_scriptPubKey v = Some spk \<and> fromHex (spk_hex spk) = Inl err)
        \<or> (\<exists>spk chunks. vout_scriptPubKey v = Some spk \<and> fromHex (spk_hex spk) = Inr chunks
              \<and> \<not> (2 \<le> length (pushes_of chunks) \<and> pushes_of chunks ! 0 = ''JOB''))"
  then show "parseJobFromTx fromHex (tx\<lparr>tx_vout := v # tx_vout tx\<rparr>) = parseJobFromTx fromHex tx"
    by (auto simp: parseJobFromTx_def try_catch_def job_of_script_def Let_def)
next
  assume "parseJobFromTx fromHex tx = Inr (Some p)"
  then show "\<exists>v \<in> set (tx_vout tx). \<exists>spk chunks.
            vout_scriptPubKey v = Some spk \<and> spk_type spk = ''nulldata''
          \<and> fromHex (spk_hex spk) = Inr chunks \<and> 2 \<le> length (pushes_of chunks)
          \<and> pushes_of chunks ! 0 = ''JOB'' \<and> pushes_of chunks ! 1 = p"
    unfolding parseJobFromTx_def by (rule parseJobFromTx_loop_found)
qed

lemma ex_fromHex: "Script_fromHex ''006a034a4f42026869'' = Inr [Chunk 0 None, Chunk 106 None, Chunk 3 (Some ''JOB''), Chunk 2 (Some ''hi'')]"
  by code_simp

lemma ex_fromHex_bad: "Script_fromHex ''4c'' = Inl ''Invalid script buffer''"
  by code_simp

section \<open>What one run of the Job Processor changes\<close>

lemma log_simps [simp]:
  "lastSeenTxids (log m a) = lastSeenTxids a"
  "jobs_json (log m a) = jobs_json a"
  "console (log m a) = console a @ [m]"
  "sent (log m a) = sent a"
  by (simp_all add: log_def)

lemma saveJob_simps [simp]:
  "lastSeenTxids (saveJob j a) = lastSeenTxids a"
  "jobs_json (saveJob j a) = jobs_json a @ [j]"
  "console (saveJob j a) = console a"
  "sent (saveJob j a) = sent a"
  by (simp_all add: saveJob_def)

lemma record_settled_simps [simp]:
  "lastSeenTxids (record_settled w t p r n b x a) = lastSeenTxids a"
  "jobs_json (record_settled w t p r n b x a) = jobs_json a @
     [\<lparr>jobTxid = t, resTxid = Some x, prompt = p,
       result = (if b_isHashed b then hashed_marker else r),
       satsReceived = n, satsKept = b_keep b,
       isHashed = Some (b_isHashed b), error = None, timestamp = w_now w\<rparr>]"
  "console (record_settled w t p r n b x a) = console a @
     [L_response_tx x, L_kept (b_keep b)] @ (if b_isHashed b then [L_hashed_warning] else [])"
  "sent (record_settled w t p r n b x a) = sent a"
  by (simp_all add: record_settled_def Let_def)

lemma record_failed_simps [simp]:
  "lastSeenTxids (record_failed w t p r n e a) = lastSeenTxids a"
  "jobs_json (record_failed w t p r n e a) = jobs_json a @
     [\<lparr>jobTxid = t, resTxid = None, prompt = p, result = r,
       satsReceived = n, satsKept = 0,
       isHashed = None, error = Some e, timestamp = w_now w\<rparr>]"
  "console (record_failed w t p r n e a) = console a @ [L_broadcast_failed e]"
  "sent (record_failed w t p r n e a) = sent a"
  by (simp_all add: record_failed_def Let_def)

lemma fold_received: "fold (\<lambda>u s. s + int (u_satoshis u)) utxos n = n + int (sum_list (map u_satoshis utxos))"
  by (induction utxos arbitrary: n) auto

lemma askLLM_returns: "\<exists>r. askLLM w p = Inr r"
  by (auto simp: askLLM_def try_catch_def askLLM_body_def Let_def split: sum.splits)

lemma askLLM_error: "w_generate w p = Inl err \<Longrightarrow> askLLM w p = Inr (''Error: '' @ err)"
  by (simp add: askLLM_def try_catch_def askLLM_body_def)

text \<open>\<open>processJob\<close> once the request is parsed and funded.\<close>

lemma processJob_request:
  assumes "w_getTx w t = Inr (Some tx)"
    and "parseJobFromTx Script_fromHex tx = Inr (Some p)" and "p \<noteq> []"
    and "findOurOutputs tx (address wlt) = utxos" and "utxos \<noteq> []"
    and "askLLM w p = Inr r"
    and "buildResponseTx k utxos t r = b"
    and "int (sum_list (map u_satoshis utxos)) = n"
    and "a\<lparr>console := console a @ [L_new_tx t, L_job p, L_received n, L_thinking, L_result r, L_broadcasting],
           sent := sent a @ [b_tx b]\<rparr> = a1"
  shows "processJob w wlt k t a =
           (Inr (), case w_broadcast w (b_tx b) of
                      Inr x \<Rightarrow> record_settled w t p r n b x a1
                    | Inl e \<Rightarrow> record_failed w t p r n e a1)"
  using assms
  by (auto simp: processJob_def Let_def fold_received log_def split: sum.splits)

lemma processJob_seen [simp]: "lastSeenTxids (snd (processJob w wlt k t a)) = lastSeenTxids a"
  by (simp add: processJob_def Let_def split: sum.splits option.splits)

lemma processJob_jobs:
  "\<exists>js. jobs_json (snd (processJob w wlt k t a)) = jobs_json a @ js
        \<and> (\<forall>j \<in> set js. jobTxid j = t) \<and> length js \<le> 1"
  by (simp add: processJob_def Let_def split: sum.splits option.splits)

lemma processJob_console:
  "\<exists>ls. console (snd (processJob w wlt k t a)) = console a @ L_new_tx t # ls
        \<and> (\<forall>t'. L_new_tx t' \<notin> set ls)"
  by (simp add: processJob_def Let_def split: sum.splits option.splits)

section \<open>Invariants of the poll loop\<close>

lemma calls_log [simp]: "calls t (log m a) = calls t a + (if m = L_new_tx t then 1 else 0)"
  by (simp add: calls_def)

lemma entries_log [simp]: "entries t (log m a) = entries t a"
  by (simp add: entries_def)


lemma entries_seen_update [simp]: "entries t (a\<lparr>lastSeenTxids := s\<rparr>) = entries t a"
  by (simp add: entries_def)

lemma calls_seen_update [simp]: "calls t (a\<lparr>lastSeenTxids := s\<rparr>) = calls t a"
  by (simp add: calls_def)

lemma isJobProcessed_seen_update [simp]:
  "isJobProcessed (a\<lparr>lastSeenTxids := s\<rparr>) t = isJobProcessed a t"
  by (simp add: isJobProcessed_def)

lemma processJob_other:
  assumes "t \<noteq> x"
  shows "entries t (snd (processJob w wlt k x a)) = entries t a"
    and "calls t (snd (processJob w wlt k x a)) = calls t a"
proof -
  obtain js where js: "jobs_json (snd (processJob w wlt k x a)) = jobs_json a @ js"
    "\<forall>j \<in> set js. jobTxid j = x"
    using processJob_jobs by blast
  with assms have "filter (\<lambda>j. jobTxid j = t) js = []"
    by (auto simp: filter_empty_conv)
  with js show "entries t (snd (processJob w wlt k x a)) = entries t a"
    by (simp add: entries_def)
  obtain ls where ls: "console (snd (processJob w wlt k x a)) = console a @ L_new_tx x # ls"
    "\<forall>t'. L_new_tx t' \<notin> set ls"
    using processJob_console by blast
  then have "filter (\<lambda>l. l = L_new_tx t) ls = []"
    by (auto simp: filter_empty_conv)
  with ls assms show "calls t (snd (processJob w wlt k x a)) = calls t a"
    by (simp add: calls_def)
qed

lemma processJob_self:
  shows "calls t (snd (processJob w wlt k t a)) = calls t a + 1"
    and "length (entries t (snd (processJob w wlt k t a))) \<le> length (entries t a) + 1"
proof -
  obtain ls where ls: "console (snd (processJob w wlt k t a)) = console a @ L_new_tx t # ls"
    "\<forall>t'. L_new_tx t' \<notin> set ls"
    using processJob_console by blast
  then have "filter (\<lambda>l. l = L_new_tx t) ls = []"
    by (auto simp: filter_empty_conv)
  with ls show "calls t (snd (processJob w wlt k t a)) = calls t a + 1"
    by (simp add: calls_def)
  obtain js where js: "jobs_json (snd (processJob w wlt k t a)) = jobs_json a @ js"
    "length js \<le> 1"
    using processJob_jobs by blast
  have "length (filter (\<lambda>j. jobTxid j = t) js) \<le> length js" by simp
  with js have "length (filter (\<lambda>j. jobTxid j = t) js) \<le> 1" by linarith
  with js show "length (entries t (snd (processJob w wlt k t a))) \<le> length (entries t a) + 1"
    by (simp add: entries_def)
qed

lemma processJob_guarded:
  "guarded t a \<Longrightarrow> guarded t (snd (processJob w wlt k x a))"
proof -
  obtain js where "jobs_json (snd (processJob w wlt k x a)) = jobs_json a @ js"
    using processJob_jobs by blast
  then show "guarded t a \<Longrightarrow> guarded t (snd (processJob w wlt k x a))"
    by (auto simp: guarded_def isJobProcessed_def)
qed

lemma guarded_log [simp]: "guarded t (log m a) = guarded t a"
  by (simp add: guarded_def isJobProcessed_def)

lemma guarded_insert: "guarded t a \<Longrightarrow> guarded t (a\<lparr>lastSeenTxids := insert x (lastSeenTxids a)\<rparr>)"
  by (auto simp: guarded_def)

text \<open>A guarded id is left alone by the loop.\<close>
lemma poll_loop_guarded:
  "guarded t a \<Longrightarrow>
     entries t (poll_loop w wlt k h a) = entries t a
   \<and> calls t (poll_loop w wlt k h a) = calls t a
   \<and> guarded t (poll_loop w wlt k h a)"
proof (induction h arbitrary: a)
  case Nil
  then show ?case by simp
next
  case (Cons x h)
  show ?case
  proof (cases "x \<in> lastSeenTxids a")
    case True
    with Cons show ?thesis by simp
  next
    case False
    define a1 where "a1 = a\<lparr>lastSeenTxids := insert x (lastSeenTxids a)\<rparr>"
    have g1: "guarded t a1" using Cons.prems by (simp add: a1_def guarded_insert)
    have e1: "entries t a1 = entries t a" "calls t a1 = calls t a" by (simp_all add: a1_def)
    show ?thesis
    proof (cases "isJobProcessed a1 x")
      case True
      with False Cons.IH [OF g1] e1 show ?thesis by (simp add: a1_def)
    next
      case np: False
      have "t \<noteq> x"
        using Cons.prems False np by (auto simp: guarded_def a1_def)
      obtain r a2 where pj: "processJob w wlt k x a1 = (r, a2)" by (cases "processJob w wlt k x a1")
      then have a2: "a2 = snd (processJob w wlt k x a1)" by simp
      have e2: "entries t a2 = entries t a" "calls t a2 = calls t a"
        using processJob_other [OF \<open>t \<noteq> x\<close>, of w wlt k a1] e1 by (simp_all add: a2)
      have g2: "guarded t a2" using processJob_guarded [OF g1] by (simp add: a2)
      show ?thesis
      proof (cases r)
        case (Inl err)
        with False np pj e2 g2 \<open>t \<noteq> x\<close> show ?thesis by (simp add: a1_def [symmetric])
      next
        case (Inr u)
        with False np pj e2 Cons.IH [OF g2] show ?thesis by (simp add: a1_def [symmetric])
      qed
    qed
  qed
qed



lemma pollForJobs_guarded:
  "guarded t a \<Longrightarrow>
     entries t (pollForJobs w wlt k a) = entries t a
   \<and> calls t (pollForJobs w wlt k a) = calls t a
   \<and> guarded t (pollForJobs w wlt k a)"
  by (auto simp: pollForJobs_def poll_loop_guarded split: sum.splits option.splits)


lemma ticks_guarded:
  "guarded t a \<Longrightarrow>
     entries t (ticks ws wlt k a) = entries t a
   \<and> calls t (ticks ws wlt k a) = calls t a
   \<and> guarded t (ticks ws wlt k a)"
proof (induction ws arbitrary: a)
  case Nil
  then show ?case by simp
next
  case (Cons w ws)
  from pollForJobs_guarded [OF Cons.prems, of w wlt k] Cons.IH [of "pollForJobs w wlt k a"]
  show ?case by simp
qed


section \<open>The sample request\<close>

lemma ex_parse: "parseJobFromTx Script_fromHex (ex_job_tx n) = Inr (Some ''hi'')"
  by (simp add: parseJobFromTx_def ex_job_tx_def try_catch_def job_of_script_def ex_fromHex
        pushes_of_def List.map_filter_simps)

lemma ex_outputs: "findOurOutputs (ex_job_tx n) (address ex_wallet) = [ex_utxo n]"
  by (simp add: findOurOutputs_def ex_job_tx_def ex_wallet_def pays_def ex_utxo_def)

lemma ex_askLLM: "askLLM (ex_world n) p = Inr ''4''"
  by (simp add: askLLM_def askLLM_body_def try_catch_def ex_world_def think_match_def trim_def is_space_def)

lemma poll_single:
  assumes "w_history w = Inr (Some [t])" and "\<not> guarded t a"
  shows "pollForJobs w wlt k a =
           (case processJob w wlt k t (a\<lparr>lastSeenTxids := insert t (lastSeenTxids a)\<rparr>) of
              (Inr u, a') \<Rightarrow> a' | (Inl err, a') \<Rightarrow> log (L_poll_error err) a')"
  using assms by (simp add: pollForJobs_def guarded_def split: prod.splits sum.splits)

lemma ex_agent_unguarded: "\<not> guarded t ex_agent"
  by (simp add: guarded_def ex_agent_def isJobProcessed_def)

lemma pushes_of_res_script: "pushes_of (res_script t x) = [''RES'', rev (Buffer_from_hex t), x]"
  by (simp add: res_script_def Script_add_buffer_def Script_add_opcode_def pushes_of_def
        List.map_filter_simps)

lemma ex_poll:
  assumes "w_history w = Inr (Some [ex_id])"
    and "w_getTx w ex_id = Inr (Some (ex_job_tx n))"
    and "askLLM w ''hi'' = Inr r"
    and "\<not> guarded ex_id a"
    and "buildResponseTx ex_key [ex_utxo n] ex_id r = b"
  shows "pollForJobs w ex_wallet ex_key a =
          (case w_broadcast w (b_tx b) of
             Inr x \<Rightarrow> record_settled w ex_id ''hi'' r (int n) b x
                        (a\<lparr>lastSeenTxids := insert ex_id (lastSeenTxids a),
                           console := console a @ [L_new_tx ex_id, L_job ''hi'', L_received (int n),
                             L_thinking, L_result r, L_broadcasting],
                           sent := sent a @ [b_tx b]\<rparr>)
           | Inl e \<Rightarrow> record_failed w ex_id ''hi'' r (int n) e
                        (a\<lparr>lastSeenTxids := insert ex_id (lastSeenTxids a),
                           console := console a @ [L_new_tx ex_id, L_job ''hi'', L_received (int n),
                             L_thinking, L_result r, L_broadcasting],
                           sent := sent a @ [b_tx b]\<rparr>))"
proof -
  have p: "processJob w ex_wallet ex_key ex_id (a\<lparr>lastSeenTxids := insert ex_id (lastSeenTxids a)\<rparr>) =
     (Inr (), case w_broadcast w (b_tx b) of
             Inr x \<Rightarrow> record_settled w ex_id ''hi'' r (int n) b x
                        (a\<lparr>lastSeenTxids := insert ex_id (lastSeenTxids a),
                           console := console a @ [L_new_tx ex_id, L_job ''hi'', L_received (int n),
                             L_thinking, L_result r, L_broadcasting],
                           sent := sent a @ [b_tx b]\<rparr>)
           | Inl e \<Rightarrow> record_failed w ex_id ''hi'' r (int n) e
                        (a\<lparr>lastSeenTxids := insert ex_id (lastSeenTxids a),
                           console := console a @ [L_new_tx ex_id, L_job ''hi'', L_received (int n),
                             L_thinking, L_result r, L_broadcasting],
                           sent := sent a @ [b_tx b]\<rparr>))"
    by (subst processJob_request [OF assms(2) ex_parse _ ex_outputs _ assms(3) assms(5) refl refl])
       (simp_all add: ex_utxo_def split: sum.splits)
  show ?thesis
    unfolding poll_single [OF assms(1) assms(4)] p by simp
qed

text \<open>
  C2. The claim is that \<open>satsReceived\<close> and \<open>satsKept\<close> of every persisted record are
  non-negative, also when the request pays less than the fee. The code persists
  \<open>satsKept = keep = totalIn - FEE\<close> on the success path: for a request that pays 100
  satoshis and whose settlement is accepted, the record holds \<open>satsKept = -200\<close>.
\<close>
theorem underpaid_job_negative_kept:
  "map satsKept (jobs_json (pollForJobs (ex_world 100) ex_wallet ex_key ex_agent)) = [- 200]
   \<and> map resTxid (jobs_json (pollForJobs (ex_world 100) ex_wallet ex_key ex_agent)) = [Some ''resp'']
   \<and> map satsReceived (jobs_json (pollForJobs (ex_world 100) ex_wallet ex_key ex_agent)) = [100]"
proof -
  have w: "w_history (ex_world 100) = Inr (Some [ex_id])"
    "w_getTx (ex_world 100) ex_id = Inr (Some (ex_job_tx 100))"
    "\<And>tx. w_broadcast (ex_world 100) tx = Inr ''resp''"
    by (simp_all add: ex_world_def)
  show ?thesis
    unfolding ex_poll [OF w(1) w(2) ex_askLLM ex_agent_unguarded refl]
    by (simp add: w buildResponseTx_unfold ex_utxo_def FEE_def ex_agent_def)
qed

lemma main_seen_stored: "set (map jobTxid stored) \<subseteq> lastSeenTxids (main w0 stored)"
  by (auto simp: main_def Let_def split: sum.splits option.splits)

text \<open>
  C4. When the request is parsed and funded and \<open>wocBroadcast\<close> throws, \<open>processJob\<close>
  returns normally, has handed exactly one transaction to \<open>wocBroadcast\<close>, and has appended
  one record with the request id, \<open>resTxid\<close> null and \<open>error\<close> the message. The id is then
  processed, and in every later sequence of poll ticks \<open>processJob\<close> is never started again
  for it (so the broadcast is not tried again) and its entries in the Job Store stay the same;
  nor is it started for the id after a restart of the process on that Job Store.
\<close>
theorem broadcast_failure_recorded:
  assumes "w_getTx w t = Inr (Some tx)"
    and "parseJobFromTx Script_fromHex tx = Inr (Some p)" and "p \<noteq> []"
    and "findOurOutputs tx (address wlt) \<noteq> []"
    and "askLLM w p = Inr r"
    and "w_broadcast w (b_tx (buildResponseTx k (findOurOutputs tx (address wlt)) t r)) = Inl err"
  shows "\<exists>j. fst (processJob w wlt k t a) = Inr ()
     \<and> jobs_json (snd (processJob w wlt k t a)) = jobs_json a @ [j]
     \<and> jobTxid j = t \<and> resTxid j = None \<and> error j = Some err
     \<and> sent (snd (processJob w wlt k t a))
         = sent a @ [b_tx (buildResponseTx k (findOurOutputs tx (address wlt)) t r)]
     \<and> isJobProcessed (snd (processJob w wlt k t a)) t
     \<and> (\<forall>ws. calls t (ticks ws wlt k (snd (processJob w wlt k t a)))
                = calls t (snd (processJob w wlt k t a))
            \<and> entries t (ticks ws wlt k (snd (processJob w wlt k t a)))
                = entries t (snd (processJob w wlt k t a)))
     \<and> (\<forall>w0 ws. calls t (ticks ws wlt k (main w0 (jobs_json (snd (processJob w wlt k t a))))) = 0)"
proof -
  let ?a' = "snd (processJob w wlt k t a)"
  have pj: "processJob w wlt k t a =
     (Inr (), record_failed w t p r (int (sum_list (map u_satoshis (findOurOutputs tx (address wlt))))) err
        (a\<lparr>console := console a @ [L_new_tx t, L_job p,
              L_received (int (sum_list (map u_satoshis (findOurOutputs tx (address wlt))))),
              L_thinking, L_result r, L_broadcasting],
           sent := sent a @ [b_tx (buildResponseTx k (findOurOutputs tx (address wlt)) t r)]\<rparr>))"
    by (subst processJob_request [OF assms(1) assms(2) assms(3) refl assms(4) assms(5) refl refl refl])
       (simp add: assms(6))
  have proc: "isJobProcessed ?a' t"
    by (simp add: pj isJobProcessed_def)
  then have g: "guarded t ?a'" by (simp add: guarded_def)
  have later: "\<forall>ws. calls t (ticks ws wlt k ?a') = calls t ?a'
            \<and> entries t (ticks ws wlt k ?a') = entries t ?a'"
    using ticks_guarded [OF g] by simp
  have restart: "\<forall>w0 ws. calls t (ticks ws wlt k (main w0 (jobs_json ?a'))) = 0"
  proof (intro allI)
    fix w0 ws
    from proc have "t \<in> set (map jobTxid (jobs_json ?a'))"
      by (auto simp: isJobProcessed_def)
    with main_seen_stored [of "jobs_json ?a'" w0] have "guarded t (main w0 (jobs_json ?a'))"
      by (auto simp: guarded_def)
    from ticks_guarded [OF this, of ws wlt k]
    show "calls t (ticks ws wlt k (main w0 (jobs_json ?a'))) = 0"
      by (simp add: calls_def main_def Let_def)
  qed
  show ?thesis
    using proc later restart by (simp add: pj)
qed

section \<open>Inference failures and idempotency\<close>

text \<open>
  C7. \<open>askLLM\<close> never throws; when the call to the inference server fails with a message,
  its result is the text \<open>Error: \<close> followed by the message. In \<open>processJob\<close>, for a
  request that is parsed and funded, the job then goes on: the settlement built from that
  text is handed to \<open>wocBroadcast\<close> (its data output carries the text itself when it has at
  most 50 000 bytes), \<open>processJob\<close> returns normally and one record of the job is written.
\<close>
theorem inference_failure_is_text:
  "(\<exists>r. askLLM w p = Inr r)
   \<and> (w_generate w p = Inl err \<longrightarrow> askLLM w p = Inr (''Error: '' @ err))
   \<and> (w_generate w p = Inl err \<and> w_getTx w t = Inr (Some tx)
        \<and> parseJobFromTx Script_fromHex tx = Inr (Some p) \<and> p \<noteq> []
        \<and> findOurOutputs tx (address wlt) \<noteq> [] \<longrightarrow>
       (let b = buildResponseTx k (findOurOutputs tx (address wlt)) t (''Error: '' @ err);
            a' = snd (processJob w wlt k t a)
        in fst (processJob w wlt k t a) = Inr ()
         \<and> sent a' = sent a @ [b_tx b]
         \<and> (length (''Error: '' @ err) \<le> 50000 \<longrightarrow>
              pushes_of (data_script (hd (outputs (b_tx b))))
                = [''RES'', rev (Buffer_from_hex t), ''Error: '' @ err])
         \<and> (\<exists>j. jobs_json a' = jobs_json a @ [j] \<and> jobTxid j = t)))"
proof (intro conjI impI)
  show "\<exists>r. askLLM w p = Inr r" by (rule askLLM_returns)
next
  assume "w_generate w p = Inl err"
  then show "askLLM w p = Inr (''Error: '' @ err)" by (rule askLLM_error)
next
  assume h: "w_generate w p = Inl err \<and> w_getTx w t = Inr (Some tx)
        \<and> parseJobFromTx Script_fromHex tx = Inr (Some p) \<and> p \<noteq> []
        \<and> findOurOutputs tx (address wlt) \<noteq> []"
  let ?r = "''Error: '' @ err"
  let ?u = "findOurOutputs tx (address wlt)"
  let ?b = "buildResponseTx k ?u t ?r"
  have llm: "askLLM w p = Inr ?r" using h by (simp add: askLLM_error)
  have pj: "processJob w wlt k t a =
     (Inr (), case w_broadcast w (b_tx ?b) of
                Inr x \<Rightarrow> record_settled w t p ?r (int (sum_list (map u_satoshis ?u))) ?b x
                  (a\<lparr>console := console a @ [L_new_tx t, L_job p,
                        L_received (int (sum_list (map u_satoshis ?u))),
                        L_thinking, L_result ?r, L_broadcasting],
                     sent := sent a @ [b_tx ?b]\<rparr>)
              | Inl e \<Rightarrow> record_failed w t p ?r (int (sum_list (map u_satoshis ?u))) e
                  (a\<lparr>console := console a @ [L_new_tx t, L_job p,
                        L_received (int (sum_list (map u_satoshis ?u))),
                        L_thinking, L_result ?r, L_broadcasting],
                     sent := sent a @ [b_tx ?b]\<rparr>))"
    using h by (subst processJob_request [OF _ _ _ refl _ llm refl refl refl]) simp_all
  have carried: "length ?r \<le> 50000 \<longrightarrow>
      pushes_of (data_script (hd (outputs (b_tx ?b)))) = [''RES'', rev (Buffer_from_hex t), ?r]"
    by (simp add: buildResponseTx_unfold data_script_def pushes_of_res_script size_policy_def)
  show "let b = ?b; a' = snd (processJob w wlt k t a)
        in fst (processJob w wlt k t a) = Inr ()
         \<and> sent a' = sent a @ [b_tx b]
         \<and> (length ?r \<le> 50000 \<longrightarrow>
              pushes_of (data_script (hd (outputs (b_tx b)))) = [''RES'', rev (Buffer_from_hex t), ?r])
         \<and> (\<exists>j. jobs_json a' = jobs_json a @ [j] \<and> jobTxid j = t)"
    unfolding Let_def using carried by (simp add: pj split: sum.splits)
qed



section \<open>Startup\<close>

lemma poll_fresh_called:
  assumes "\<not> guarded t a" and "w_history w = Inr (Some (t # rest))"
  shows "calls t (pollForJobs w wlt k a) = calls t a + 1"
proof -
  define a1 where "a1 = a\<lparr>lastSeenTxids := insert t (lastSeenTxids a)\<rparr>"
  obtain r a2 where pj: "processJob w wlt k t a1 = (r, a2)" by (cases "processJob w wlt k t a1")
  then have a2: "a2 = snd (processJob w wlt k t a1)" by simp
  have c2: "calls t a2 = calls t a + 1"
    using processJob_self(1) [of t w wlt k a1] by (simp add: a2 a1_def)
  have g2: "guarded t a2" by (simp add: a2 guarded_def a1_def)
  have np: "\<not> isJobProcessed a1 t" "t \<notin> lastSeenTxids a"
    using assms(1) by (simp_all add: guarded_def a1_def)
  show ?thesis
  proof (cases r)
    case (Inl err)
    with assms(2) np pj c2 show ?thesis
      by (simp add: pollForJobs_def a1_def [symmetric])
  next
    case (Inr u)
    with assms(2) np pj have "pollForJobs w wlt k a = poll_loop w wlt k rest a2"
      by (simp add: pollForJobs_def a1_def [symmetric])
    with poll_loop_guarded [OF g2, of w wlt k rest] c2 show ?thesis by simp
  qed
qed

lemma main_simps:
  "jobs_json (main w0 stored) = stored" "console (main w0 stored) = []"
  "set (map jobTxid stored) \<subseteq> lastSeenTxids (main w0 stored)"
  "w_history w0 = Inr (Some h) \<Longrightarrow> lastSeenTxids (main w0 stored) = set h \<union> set (map jobTxid stored)"
  by (auto simp: main_def Let_def split: sum.splits option.splits)

text \<open>
  C6 (amended). When the history is fetched at startup the seen-set is the ids of the
  history and of the Job Store. An id of the startup history, recorded or not, and an id of
  the Job Store are never processed in any later sequence of poll ticks, and their entries
  stay what the Job Store held. An id that is not in the seen-set after startup and comes
  first in a later history is processed.
\<close>
theorem startup_seeds_seen_set:
  "(w_history w0 = Inr (Some h) \<longrightarrow>
      lastSeenTxids (main w0 stored) = set h \<union> set (map jobTxid stored))
   \<and> ((w_history w0 = Inr (Some h) \<and> t \<in> set h) \<or> t \<in> set (map jobTxid stored) \<longrightarrow>
        calls t (ticks ws wlt k (main w0 stored)) = 0
      \<and> entries t (ticks ws wlt k (main w0 stored)) = filter (\<lambda>j. jobTxid j = t) stored)
   \<and> (t \<notin> lastSeenTxids (main w0 stored) \<and> w_history w = Inr (Some (t # rest)) \<longrightarrow>
        calls t (pollForJobs w wlt k (main w0 stored)) = 1)"
proof -
  have c0: "calls t (main w0 stored) = 0" by (simp add: calls_def main_simps)
  have e0: "entries t (main w0 stored) = filter (\<lambda>j. jobTxid j = t) stored"
    by (simp add: entries_def main_simps)
  have 1: "w_history w0 = Inr (Some h) \<longrightarrow>
      lastSeenTxids (main w0 stored) = set h \<union> set (map jobTxid stored)"
    by (simp add: main_simps)
  have 2: "(w_history w0 = Inr (Some h) \<and> t \<in> set h) \<or> t \<in> set (map jobTxid stored) \<longrightarrow>
        calls t (ticks ws wlt k (main w0 stored)) = 0
      \<and> entries t (ticks ws wlt k (main w0 stored)) = filter (\<lambda>j. jobTxid j = t) stored"
  proof
    assume "(w_history w0 = Inr (Some h) \<and> t \<in> set h) \<or> t \<in> set (map jobTxid stored)"
    then have "t \<in> lastSeenTxids (main w0 stored)"
      using main_simps(3) [of stored w0] main_simps(4) [of w0 h stored] by auto
    then have "guarded t (main w0 stored)" by (simp add: guarded_def)
    from ticks_guarded [OF this, of ws wlt k] c0 e0
    show "calls t (ticks ws wlt k (main w0 stored)) = 0
      \<and> entries t (ticks ws wlt k (main w0 stored)) = filter (\<lambda>j. jobTxid j = t) stored"
      by simp
  qed
  have 3: "t \<notin> lastSeenTxids (main w0 stored) \<and> w_history w = Inr (Some (t # rest)) \<longrightarrow>
        calls t (pollForJobs w wlt k (main w0 stored)) = 1"
  proof
    assume h: "t \<notin> lastSeenTxids (main w0 stored) \<and> w_history w = Inr (Some (t # rest))"
    then have "t \<notin> set (map jobTxid stored)" using main_simps(3) [of stored w0] by auto
    then have "\<not> isJobProcessed (main w0 stored) t"
      by (auto simp: isJobProcessed_def main_simps)
    with h have "\<not> guarded t (main w0 stored)" by (simp add: guarded_def)
    from poll_fresh_called [OF this, of w rest wlt k] h c0
    show "calls t (pollForJobs w wlt k (main w0 stored)) = 1" by simp
  qed
  from 1 2 3 show ?thesis by blast
qed

lemma ex_world_simps:
  "w_history (ex_world n) = Inr (Some [ex_id])"
  "w_getTx (ex_world n) ex_id = Inr (Some (ex_job_tx n))"
  "w_broadcast (ex_world n) tx = Inr ''resp''"
  "w_now (ex_world n) = ''now''"
  by (simp_all add: ex_world_def)

theorem startup_seeds_seen_set_witness:
  "w_history (ex_world 3000) = Inr (Some [ex_id]) \<and> ex_id \<in> set [ex_id]
   \<and> lastSeenTxids (main (ex_world 3000) []) = {ex_id}
   \<and> calls ex_id (ticks [ex_world 3000, ex_world 3000] ex_wallet ex_key (main (ex_world 3000) [])) = 0
   \<and> ex_id \<notin> lastSeenTxids (main ex_world_offline [])
   \<and> calls ex_id (pollForJobs (ex_world 3000) ex_wallet ex_key (main ex_world_offline [])) = 1"
proof -
  have nf: "ex_id \<notin> lastSeenTxids (main ex_world_offline [])"
    by (simp add: main_def ex_world_offline_def)
  show ?thesis
    using startup_seeds_seen_set [of "ex_world 3000" "[ex_id]" "[]" ex_id
            "[ex_world 3000, ex_world 3000]" ex_wallet ex_key "ex_world 3000" "[]"]
          startup_seeds_seen_set [of ex_world_offline "[]" "[]" ex_id
            "[]" ex_wallet ex_key "ex_world 3000" "[]"]
          nf
    by (simp add: ex_world_simps)
qed

text \<open>
  Against the sentence of the specification: an id of the startup history that the Job Store does not hold
  is in the seen-set, and the next poll skips it.
\<close>
theorem restart_skips_history:
  "w_history (ex_world 3000) = Inr (Some [ex_id])
   \<and> \<not> isJobProcessed (main (ex_world 3000) []) ex_id
   \<and> calls ex_id (pollForJobs (ex_world 3000) ex_wallet ex_key (main (ex_world 3000) [])) = 0
   \<and> jobs_json (pollForJobs (ex_world 3000) ex_wallet ex_key (main (ex_world 3000) [])) = []"
  by (simp add: ex_world_simps main_def pollForJobs_def isJobProcessed_def calls_def)

section \<open>Instances\<close>

lemma ex_world_llm_down_simps:
  "w_generate ex_world_llm_down p = Inl ''connect ECONNREFUSED''"
  "w_getTx ex_world_llm_down ex_id = Inr (Some (ex_job_tx 3000))"
  by (simp_all add: ex_world_llm_down_def ex_world_def)

lemma ex_world_refused_simps:
  "w_getTx ex_world_refused ex_id = Inr (Some (ex_job_tx 3000))"
  "w_broadcast ex_world_refused tx = Inl ''Broadcast: rejected''"
  "askLLM ex_world_refused p = Inr ''4''"
  by (simp_all add: ex_world_refused_def ex_world_def askLLM_def askLLM_body_def try_catch_def
        think_match_def trim_def is_space_def)

lemma ex_outputs_nonempty: "findOurOutputs (ex_job_tx n) (address ex_wallet) \<noteq> []"
  by (simp add: ex_outputs)

theorem parseJobFromTx_total_witness:
  "parseJobFromTx Script_fromHex (ex_job_tx 3000) = Inr (Some ''hi'')
   \<and> Script_fromHex ''4c'' = Inl ''Invalid script buffer''
   \<and> parseJobFromTx Script_fromHex ((ex_job_tx 3000)\<lparr>tx_vout := ex_bad_vout # tx_vout (ex_job_tx 3000)\<rparr>)
       = Inr (Some ''hi'')
   \<and> (\<exists>v \<in> set (tx_vout (ex_job_tx 3000)). \<exists>spk chunks.
          vout_scriptPubKey v = Some spk \<and> spk_type spk = ''nulldata''
        \<and> Script_fromHex (spk_hex spk) = Inr chunks \<and> pushes_of chunks ! 1 = ''hi'')"
proof -
  have bad: "\<exists>spk err. vout_scriptPubKey ex_bad_vout = Some spk \<and> Script_fromHex (spk_hex spk) = Inl err"
    by (simp add: ex_bad_vout_def ex_fromHex_bad)
  from parseJobFromTx_total [of Script_fromHex "ex_job_tx 3000" ex_bad_vout "''hi''"] bad ex_parse [of 3000]
  have "parseJobFromTx Script_fromHex ((ex_job_tx 3000)\<lparr>tx_vout := ex_bad_vout # tx_vout (ex_job_tx 3000)\<rparr>)
       = Inr (Some ''hi'')"
    and "\<exists>v \<in> set (tx_vout (ex_job_tx 3000)). \<exists>spk chunks.
          vout_scriptPubKey v = Some spk \<and> spk_type spk = ''nulldata''
        \<and> Script_fromHex (spk_hex spk) = Inr chunks \<and> 2 \<le> length (pushes_of chunks)
        \<and> pushes_of chunks ! 0 = ''JOB'' \<and> pushes_of chunks ! 1 = ''hi''"
    by auto
  with ex_parse [of 3000] ex_fromHex_bad show ?thesis by blast
qed

theorem broadcast_failure_recorded_witness:
  "w_broadcast ex_world_refused
      (b_tx (buildResponseTx ex_key (findOurOutputs (ex_job_tx 3000) (address ex_wallet)) ex_id ''4''))
     = Inl ''Broadcast: rejected''
   \<and> (\<exists>j. jobs_json (snd (processJob ex_world_refused ex_wallet ex_key ex_id ex_agent)) = [j]
          \<and> jobTxid j = ex_id \<and> resTxid j = None \<and> error j = Some ''Broadcast: rejected'')
   \<and> calls ex_id (ticks [ex_world 3000] ex_wallet ex_key
                    (snd (processJob ex_world_refused ex_wallet ex_key ex_id ex_agent)))
       = calls ex_id (snd (processJob ex_world_refused ex_wallet ex_key ex_id ex_agent))"
proof -
  have j0: "jobs_json ex_agent = []" by (simp add: ex_agent_def)
  from broadcast_failure_recorded [OF ex_world_refused_simps(1) ex_parse _ ex_outputs_nonempty
         ex_world_refused_simps(3) ex_world_refused_simps(2), of ex_key ex_agent]
  obtain j where "jobs_json (snd (processJob ex_world_refused ex_wallet ex_key ex_id ex_agent))
                    = jobs_json ex_agent @ [j]"
    "jobTxid j = ex_id" "resTxid j = None" "error j = Some ''Broadcast: rejected''"
    "\<forall>ws. calls ex_id (ticks ws ex_wallet ex_key (snd (processJob ex_world_refused ex_wallet ex_key ex_id ex_agent)))
                = calls ex_id (snd (processJob ex_world_refused ex_wallet ex_key ex_id ex_agent))"
    by blast
  then show ?thesis by (simp add: j0 ex_world_refused_simps del: ticks.simps)
qed

theorem inference_failure_is_text_witness:
  "w_generate ex_world_llm_down ''hi'' = Inl ''connect ECONNREFUSED''
   \<and> askLLM ex_world_llm_down ''hi'' = Inr ''Error: connect ECONNREFUSED''
   \<and> fst (processJob ex_world_llm_down ex_wallet ex_key ex_id ex_agent) = Inr ()
   \<and> map (\<lambda>tx. pushes_of (data_script (hd (outputs tx))))
        (sent (snd (processJob ex_world_llm_down ex_wallet ex_key ex_id ex_agent)))
       = [[''RES'', rev (Buffer_from_hex ex_id), ''Error: connect ECONNREFUSED'']]"
proof -
  have s0: "sent ex_agent = []" by (simp add: ex_agent_def)
  have hyp: "w_generate ex_world_llm_down ''hi'' = Inl ''connect ECONNREFUSED''
    \<and> w_getTx ex_world_llm_down ex_id = Inr (Some (ex_job_tx 3000))
    \<and> parseJobFromTx Script_fromHex (ex_job_tx 3000) = Inr (Some ''hi'') \<and> ''hi'' \<noteq> []
    \<and> findOurOutputs (ex_job_tx 3000) (address ex_wallet) \<noteq> []"
    by (simp add: ex_world_llm_down_simps ex_parse ex_outputs_nonempty)
  from inference_failure_is_text [of ex_world_llm_down "''hi''" "''connect ECONNREFUSED''" ex_id
         "ex_job_tx 3000" ex_wallet ex_key ex_agent] hyp
  show ?thesis by (simp add: Let_def s0)
qed



section \<open>Hexadecimal, the hash and long answers\<close>

lemma length_toString_hex: "length (Buffer_toString_hex b) = 2 * length b"
  by (induction b) (simp_all add: Buffer_toString_hex_def)

lemma length_sha256: "length (sha256 m) = 32"
  by (simp add: sha256_def Let_def word_bytes_def split: prod.splits)

lemma hexdigit_table: "list_all (\<lambda>d. is_lower_hex (hexdigit d) \<and> hexval (hexdigit d) = Some d) [0..<16]"
  by code_simp

lemma hexdigit_lower: "d < 16 \<Longrightarrow> is_lower_hex (hexdigit d)"
  and hexval_hexdigit: "d < 16 \<Longrightarrow> hexval (hexdigit d) = Some d"
  using hexdigit_table by (simp_all add: list_all_iff)

lemma of_char_less_256: "(of_char c :: nat) < 256"
proof -
  have "(of_char c :: nat) mod 256 < 256" by simp
  then show ?thesis by (simp only: of_char_mod_256)
qed

lemma toString_hex_lower: "c \<in> set (Buffer_toString_hex b) \<Longrightarrow> is_lower_hex c"
proof (induction b)
  case Nil
  then show ?case by (simp add: Buffer_toString_hex_def)
next
  case (Cons x b)
  have "(of_char x :: nat) div 16 < 16" using of_char_less_256 [of x] by presburger
  moreover have "(of_char x :: nat) mod 16 < 16" by simp
  ultimately show ?case
    using Cons by (auto simp: Buffer_toString_hex_def hexdigit_lower)
qed

lemma sha256_hex_form:
  "length (sha256_hex m) = 64" "\<forall>c \<in> set (sha256_hex m). is_lower_hex c"
  by (simp_all add: sha256_hex_def length_toString_hex length_sha256 toString_hex_lower)

lemma think_match_plain: "CHR ''<'' \<noteq> c \<Longrightarrow> think_match (c # cs) = None"
  by (auto simp: think_match_def)

lemma strip_think_plain: "CHR ''<'' \<notin> set s \<Longrightarrow> strip_think 0 s = s"
  by (induction s) (simp_all add: think_match_plain)

lemma trim_plain: "\<forall>c \<in> set s. \<not> is_space c \<Longrightarrow> trim s = s"
proof -
  assume h: "\<forall>c \<in> set s. \<not> is_space c"
  have 1: "dropWhile is_space s = s"
    using h by (cases s) simp_all
  have 2: "dropWhile is_space (rev s) = rev s"
    using h by (cases "rev s") (simp, metis dropWhile.simps(2) list.set_intros(1) set_rev)
  show ?thesis by (simp add: trim_def 1 2)
qed

lemma ex_long_answer_length: "length ex_long_answer = 50001"
  by (simp add: ex_long_answer_def)

lemma ex_askLLM_long: "askLLM ex_world_long p = Inr ex_long_answer"
proof -
  have s: "set ex_long_answer = {CHR ''a''}" by (simp add: ex_long_answer_def)
  have ne: "ex_long_answer \<noteq> []" using ex_long_answer_length by auto
  have 1: "strip_think 0 ex_long_answer = ex_long_answer"
    by (rule strip_think_plain) (simp add: s)
  have 2: "trim ex_long_answer = ex_long_answer"
    by (rule trim_plain) (simp add: s is_space_def)
  show ?thesis
    by (simp add: askLLM_def askLLM_body_def try_catch_def ex_world_long_def 1 2 ne)
qed

section \<open>The size policy\<close>

lemma hashed_marker_length: "length hashed_marker = 29"
  by (simp add: hashed_marker_def)

text \<open>
  C5 (amended). For a request that is parsed and funded and whose settlement is accepted:
  when the result has more than 50 000 bytes, the data output carries \<open>HASH:\<close> followed by
  the 64 lower-case hexadecimal characters of the SHA-256 of the result, the record is
  flagged as hashed, and the result field of the record is the fixed marker text, not the
  result; when the result has at most 50 000 bytes it is carried verbatim, the record is
  not flagged and holds the result.
\<close>
theorem oversized_result_hashed:
  assumes "w_getTx w t = Inr (Some tx)"
    and "parseJobFromTx Script_fromHex tx = Inr (Some p)" and "p \<noteq> []"
    and "findOurOutputs tx (address wlt) \<noteq> []"
    and "askLLM w p = Inr r"
    and "w_broadcast w (b_tx (buildResponseTx k (findOurOutputs tx (address wlt)) t r)) = Inr x"
  shows "let b = buildResponseTx k (findOurOutputs tx (address wlt)) t r;
             j = last (jobs_json (snd (processJob w wlt k t a)))
         in (50000 < length r \<longrightarrow>
               pushes_of (data_script (hd (outputs (b_tx b))))
                 = [''RES'', rev (Buffer_from_hex t), ''HASH:'' @ sha256_hex r]
             \<and> length (sha256_hex r) = 64 \<and> (\<forall>c \<in> set (sha256_hex r). is_lower_hex c)
             \<and> isHashed j = Some True \<and> result j = hashed_marker \<and> result j \<noteq> r)
          \<and> (length r \<le> 50000 \<longrightarrow>
               pushes_of (data_script (hd (outputs (b_tx b)))) = [''RES'', rev (Buffer_from_hex t), r]
             \<and> isHashed j = Some False \<and> result j = r)"
proof -
  let ?u = "findOurOutputs tx (address wlt)"
  let ?b = "buildResponseTx k ?u t r"
  let ?n = "int (sum_list (map u_satoshis ?u))"
  have pj: "processJob w wlt k t a =
     (Inr (), record_settled w t p r ?n ?b x
        (a\<lparr>console := console a @ [L_new_tx t, L_job p, L_received ?n,
              L_thinking, L_result r, L_broadcasting],
           sent := sent a @ [b_tx ?b]\<rparr>))"
    by (subst processJob_request [OF assms(1) assms(2) assms(3) refl assms(4) assms(5) refl refl refl])
       (simp add: assms(6))
  have big: "50000 < length r \<Longrightarrow> hashed_marker \<noteq> r"
    using hashed_marker_length by auto
  show ?thesis
    unfolding Let_def
    by (auto simp: pj buildResponseTx_unfold data_script_def pushes_of_res_script size_policy_def
          sha256_hex_form big)
qed

lemma ex_world_long_simps:
  "w_history ex_world_long = Inr (Some [ex_id])"
  "w_getTx ex_world_long ex_id = Inr (Some (ex_job_tx 3000))"
  "w_broadcast ex_world_long tx = Inr ''resp''"
  by (simp_all add: ex_world_long_def ex_world_def)

theorem oversized_result_hashed_witness:
  "50000 < length ex_long_answer
   \<and> isHashed (last (jobs_json (snd (processJob ex_world_long ex_wallet ex_key ex_id ex_agent)))) = Some True
   \<and> result (last (jobs_json (snd (processJob ex_world_long ex_wallet ex_key ex_id ex_agent)))) = hashed_marker
   \<and> length ''4'' \<le> 50000
   \<and> isHashed (last (jobs_json (snd (processJob (ex_world 3000) ex_wallet ex_key ex_id ex_agent)))) = Some False
   \<and> result (last (jobs_json (snd (processJob (ex_world 3000) ex_wallet ex_key ex_id ex_agent)))) = ''4''"
  using oversized_result_hashed [OF ex_world_long_simps(2) ex_parse _ ex_outputs_nonempty
          ex_askLLM_long ex_world_long_simps(3), where k = ex_key and a = ex_agent]
        oversized_result_hashed [OF ex_world_simps(2) ex_parse _ ex_outputs_nonempty
          ex_askLLM ex_world_simps(3), where k = ex_key and a = ex_agent]
  by (simp add: Let_def ex_long_answer_length)

text \<open>
  Against the sentence of the specification: for an answer of 50 001 bytes the record that is written holds
  the marker, and the answer itself is kept nowhere.
\<close>
theorem full_result_not_retained:
  "askLLM ex_world_long ''hi'' = Inr ex_long_answer
   \<and> 50000 < length ex_long_answer
   \<and> map resTxid (jobs_json (pollForJobs ex_world_long ex_wallet ex_key ex_agent)) = [Some ''resp'']
   \<and> map isHashed (jobs_json (pollForJobs ex_world_long ex_wallet ex_key ex_agent)) = [Some True]
   \<and> map result (jobs_json (pollForJobs ex_world_long ex_wallet ex_key ex_agent)) = [hashed_marker]
   \<and> hashed_marker \<noteq> ex_long_answer"
proof -
  have ne: "hashed_marker \<noteq> ex_long_answer"
    using hashed_marker_length ex_long_answer_length by auto
  have jobs: "jobs_json (pollForJobs ex_world_long ex_wallet ex_key ex_agent) =
     [\<lparr>jobTxid = ex_id, resTxid = Some ''resp'', prompt = ''hi'', result = hashed_marker,
       satsReceived = 3000, satsKept = 2700, isHashed = Some True, error = None,
       timestamp = w_now ex_world_long\<rparr>]"
    unfolding ex_poll [OF ex_world_long_simps(1) ex_world_long_simps(2) ex_askLLM_long
                ex_agent_unguarded refl]
    by (simp add: ex_world_long_simps buildResponseTx_unfold size_policy_def ex_long_answer_length
          ex_utxo_def FEE_def ex_agent_def)
  show ?thesis
    by (simp add: jobs ex_askLLM_long ex_long_answer_length ne)
qed

section \<open>The pending entry of a conversation\<close>

lemma pending_count_append [simp]: "pending_count (h @ g) = pending_count h + pending_count g"
  by (simp add: pending_count_def)

lemma pending_count_single [simp]: "pending_count [e] = (if c_pending e then 1 else 0)"
  by (simp add: pending_count_def)









section \<open>Round trips\<close>















section \<open>The back-reference\<close>










end
